theory Spec2Isabelle
  imports Main "HOL-Library.Sublist"
begin

section \<open>Data model\<close>

text \<open>
  A \<open>pathlib.Path\<close> (a POSIX path) is kept as the string \<open>str(path)\<close> gives, which is
  pathlib's normal form: no empty and no \<open>.\<close> component, no separator at the end but for
  the root, and \<open>.\<close> for the path without components. A \<open>Path\<close> object is always
  truthy in Python, so a test \<open>if debug_output_path:\<close> on an \<open>Optional[Path]\<close> asks
  whether it is not \<open>None\<close>.
\<close>

type_synonym path = string

text \<open>
  \<open>p / name\<close> for a relative \<open>name\<close> of one component, on the normal form: the path
  without components gives \<open>name\<close> alone (\<open>Path(".") / "x"\<close> is \<open>x\<close>), a root takes the
  name without a second separator (\<open>Path("/") / "x"\<close> is \<open>/x\<close>), any other path takes a
  separator and the name. Components \<open>..\<close> stay as they are.
\<close>

definition truediv :: "path \<Rightarrow> string \<Rightarrow> path" where
  "truediv p name =
     (if p = ''.'' \<or> p = [] then name
      else if last p = CHR ''/'' then p @ name
      else p @ ''/'' @ name)"

text \<open>\<open>os.path.join(a, b)\<close> (\<open>posixpath\<close>), which does not normalise.\<close>

definition os_path_join :: "string \<Rightarrow> string \<Rightarrow> string" where
  "os_path_join a b =
     (if b \<noteq> [] \<and> hd b = CHR ''/'' then b
      else if a = [] \<or> last a = CHR ''/'' then a @ b
      else a @ ''/'' @ b)"

text \<open>The fixture formats registered in \<open>ethereum_test_fixtures/__init__.py\<close>.\<close>

datatype FixtureFormat =
    BlockchainFixture
  | BlockchainEngineFixture
  | EOFFixture
  | StateFixture

text \<open>The value \<open>json.loads\<close> returns; a float is kept as its literal.\<close>

datatype json =
    JNull
  | JBool bool
  | JInt int
  | JFloat string
  | JString string
  | JList "json list"
  | JDict "(string \<times> json) list"

text \<open>\<open>isinstance(result_json, list)\<close>\<close>

fun is_list :: "json \<Rightarrow> bool" where
  "is_list (JList xs) = True"
| "is_list _ = False"

text \<open>
  The exceptions the code raises or lets through. \<open>Exception\<close> is Python's plain
  \<open>Exception\<close> with its message; the others carry what identifies them.
\<close>

datatype error =
    Exception string
  | NotImplementedError string
  | JSONDecodeError string
  | FileNotFoundError path
  | SameFileError path path

text \<open>\<open>subprocess.CompletedProcess\<close>, with \<open>text=True\<close>.\<close>

record CompletedProcess =
  returncode :: int
  stdout :: string
  stderr :: string

text \<open>What a file of the store holds: text, or a value handed to the dump helper.\<close>

datatype file_content =
    Text string
  | Number int
  | Strings "string list"

text \<open>
  The world outside the harness that the code touches. Files are told apart by an
  identifier of the file itself, as \<open>os.path.samefile\<close> tells them apart by device and
  inode: \<open>locate\<close> gives the file a path string names (or would name, once created), so
  two strings name the same file exactly when \<open>locate\<close> agrees on them, whether through
  \<open>.\<close> and \<open>..\<close>, an absolute path or a link. \<open>files\<close> holds the content of the files that
  exist. Which file a path names does not change during a call. \<open>commands\<close> are the
  command lines handed to \<open>subprocess.run\<close>, oldest first.
\<close>

type_synonym file_id = string

record world =
  locate :: "string \<Rightarrow> file_id"
  files :: "file_id \<rightharpoonup> file_content"
  commands :: "string list list"

text \<open>What a child process that was started leaves: its exit status and the bytes it
  wrote to its two pipes (an Isabelle \<open>char\<close> is one byte).\<close>

type_synonym bytes = "char list"

record ChildProcess =
  exit_status :: int
  stdout_bytes :: bytes
  stderr_bytes :: bytes

text \<open>
  The library and the external binary, taken as given:
  \<^item> \<open>spawn\<close>: starting the command line and waiting for it, \<open>Inl\<close> the text of the
    \<open>OSError\<close> when the process cannot be started;
  \<^item> \<open>decode\<close>: the decoding of captured bytes that \<open>text=True\<close> asks for (locale
    encoding, universal newlines), \<open>Inl\<close> the text of its \<open>UnicodeDecodeError\<close>;
  \<^item> \<open>json_loads\<close>: \<open>json.loads\<close>, \<open>Inl\<close> the text of its \<open>JSONDecodeError\<close>;
  \<^item> \<open>str_json\<close>: \<open>str\<close> of a parsed value, as an f-string formats it;
  \<^item> \<open>dedent\<close>: \<open>textwrap.dedent\<close>;
  \<^item> \<open>str_format\<close>: the text an f-string gives for a fixture format class.
\<close>

record pylib =
  spawn :: "string list \<Rightarrow> string + ChildProcess"
  decode :: "bytes \<Rightarrow> string + string"
  json_loads :: "string \<Rightarrow> string + json"
  str_json :: "json \<Rightarrow> string"
  dedent :: "string \<Rightarrow> string"
  str_format :: "FixtureFormat \<Rightarrow> string"

text \<open>
  \<open>subprocess.run(command, stdout=PIPE, stderr=PIPE, text=True)\<close>: the process is
  started and waited for, then standard output and standard error are decoded, in this
  order; any of the three steps may raise. The exit status is returned, not tested.
\<close>

definition subprocess_run :: "pylib \<Rightarrow> string list \<Rightarrow> string + CompletedProcess" where
  "subprocess_run py command =
     (case spawn py command of
        Inl e \<Rightarrow> Inl e
      | Inr child \<Rightarrow>
          (case decode py (stdout_bytes child) of
             Inl e \<Rightarrow> Inl e
           | Inr out \<Rightarrow>
               (case decode py (stderr_bytes child) of
                  Inl e \<Rightarrow> Inl e
                | Inr err \<Rightarrow>
                    Inr \<lparr> returncode = exit_status child, stdout = out, stderr = err \<rparr>)))"

text \<open>\<open>" ".join(xs)\<close>\<close>

fun join_sp :: "string list \<Rightarrow> string" where
  "join_sp [] = []"
| "join_sp [x] = x"
| "join_sp (x # y # ys) = x @ '' '' @ join_sp (y # ys)"

section \<open>\<open>FixtureConsumer\<close> (\<open>ethereum_test_fixtures/fixture_consumer.py\<close>)\<close>

record FixtureConsumer =
  statetest_binary :: "path option"
  blocktest_binary :: "path option"
  eoftest_binary :: "path option"

definition FixtureConsumer_init ::
  "path option \<Rightarrow> path option \<Rightarrow> path option \<Rightarrow> FixtureConsumer" where
  "FixtureConsumer_init statetest_bin blocktest_bin eoftest_bin =
     \<lparr> statetest_binary = statetest_bin,
       blocktest_binary = blocktest_bin,
       eoftest_binary = eoftest_bin \<rparr>"

definition is_consumable :: "'a FixtureConsumer_scheme \<Rightarrow> FixtureFormat \<Rightarrow> bool" where
  "is_consumable self fixture_format =
     (if fixture_format = StateFixture then statetest_binary self \<noteq> None
      else if fixture_format = BlockchainFixture then blocktest_binary self \<noteq> None
      else if fixture_format = EOFFixture then eoftest_binary self \<noteq> None
      else False)"

section \<open>The \<open>evm\<close> wrappers (\<open>ethereum_clis/clis/geth.py\<close>)\<close>

definition nl :: string where
  "nl = [CHR 0x0A]"

text \<open>
  \<open>GethEvm\<close> with the help text its two subclasses cache at construction. The exception
  mapper every instance gets by default is the table of the last section.
\<close>

record GethEvm =
  binary :: path
  trace :: bool
  help_string :: string

text \<open>
  \<open>_run_command\<close>: the command line goes to \<open>subprocess.run\<close>, and any exception of the
  call comes back as a plain \<open>Exception\<close>. A nonzero exit is no exception here
  (\<open>check\<close> is not set).
\<close>

definition run_command ::
  "pylib \<Rightarrow> string list \<Rightarrow> world \<Rightarrow> (error + CompletedProcess) \<times> world" where
  "run_command py command w =
     (let w' = w\<lparr>commands := commands w @ [command]\<rparr> in
      case subprocess_run py command of
        Inl e \<Rightarrow> (Inl (Exception (''Unexpected exception calling evm tool: '' @ e @ ''.'')), w')
      | Inr result \<Rightarrow> (Inr result, w'))"

text \<open>
  Modelled from the spec: \<open>dump_files_to_directory\<close> of \<open>ethereum_clis/transition_tool.py\<close>
  is not among the sources. The spec has the dumper write each artifact into the
  directory the caller names, under a fixed file name, the reproduction command as an
  executable script. So every entry of the dictionary, in its order, becomes the file of
  that name in the directory (the path \<open>os.path.join\<close> gives), holding the value given; a
  key \<open>name+flags\<close> names the file \<open>name\<close>, the flags (\<open>x\<close>, executable) being permission
  bits, which the store does not hold. A file that exists is overwritten in place.
\<close>

definition dump_file_name :: "string \<Rightarrow> string" where
  "dump_file_name key = takeWhile (\<lambda>c. c \<noteq> CHR ''+'') key"

fun dump_files_to_directory ::
  "string \<Rightarrow> (string \<times> file_content) list \<Rightarrow> world \<Rightarrow> world" where
  "dump_files_to_directory output_path [] w = w"
| "dump_files_to_directory output_path ((key, file_contents) # rest) w =
     dump_files_to_directory output_path rest
       (w\<lparr>files := (files w)(locate w (os_path_join output_path (dump_file_name key))
                                \<mapsto> file_contents)\<rparr>)"

text \<open>
  \<open>shutil.copyfile\<close>: source and destination that are the same existing file raise
  \<open>SameFileError\<close> (the test is \<open>os.path.samefile\<close>, on the files and not on the
  strings), a source that is not there raises \<open>FileNotFoundError\<close>, otherwise the
  destination is overwritten with the source's bytes.
\<close>

definition copyfile :: "path \<Rightarrow> path \<Rightarrow> world \<Rightarrow> (error + unit) \<times> world" where
  "copyfile src dst w =
     (case files w (locate w src) of
        None \<Rightarrow> (Inl (FileNotFoundError src), w)
      | Some content \<Rightarrow>
          if locate w src = locate w dst then (Inl (SameFileError src dst), w)
          else (Inr (), w\<lparr>files := (files w)(locate w dst \<mapsto> content)\<rparr>))"

text \<open>
  \<open>_consume_debug_dump\<close>; \<open>command[:-1]\<close> is \<open>butlast command\<close>, the helper gets
  \<open>str(debug_output_path)\<close>, and the copy goes to the \<open>Path\<close> \<open>debug_output_path /
  "fixtures.json"\<close>.
\<close>

definition consume_debug_dump ::
  "pylib \<Rightarrow> string list \<Rightarrow> CompletedProcess \<Rightarrow> path \<Rightarrow> path \<Rightarrow> world
     \<Rightarrow> (error + unit) \<times> world" where
  "consume_debug_dump py command result fixture_path debug_output_path w =
     (let debug_fixture_path = truediv debug_output_path ''fixtures.json'';
          consume_direct_call = join_sp (butlast command) @ '' '' @ debug_fixture_path;
          consume_direct_script =
            dedent py (''            #!/bin/bash'' @ nl
                       @ ''            '' @ consume_direct_call @ nl
                       @ ''            '');
          w1 = dump_files_to_directory debug_output_path
                 [(''consume_direct_args.py'', Strings command),
                  (''consume_direct_returncode.txt'', Number (returncode result)),
                  (''consume_direct_stdout.txt'', Text (stdout result)),
                  (''consume_direct_stderr.txt'', Text (stderr result)),
                  (''consume_direct.sh+x'', Text consume_direct_script)] w
      in copyfile fixture_path debug_fixture_path w1)"

text \<open>
  The constructors of \<open>GethBlocktest\<close> and \<open>GethStatetest\<close>: both run
  \<open>binary subcommand --help\<close> once and keep its standard output.
\<close>

definition blocktest_subcommand :: string where
  "blocktest_subcommand = ''blocktest''"

definition statetest_subcommand :: string where
  "statetest_subcommand = ''statetest''"

definition GethEvm_probe ::
  "pylib \<Rightarrow> path \<Rightarrow> bool \<Rightarrow> string \<Rightarrow> world \<Rightarrow> (error + GethEvm) \<times> world" where
  "GethEvm_probe py bin tr subcommand w =
     (let help_command = [bin, subcommand, ''--help''] in
      case run_command py help_command w of
        (Inl e, w1) \<Rightarrow> (Inl e, w1)
      | (Inr result, w1) \<Rightarrow>
          (Inr \<lparr> binary = bin, trace = tr, help_string = stdout result \<rparr>, w1))"

definition GethBlocktest_init ::
  "pylib \<Rightarrow> path \<Rightarrow> bool \<Rightarrow> world \<Rightarrow> (error + GethEvm) \<times> world" where
  "GethBlocktest_init py bin tr w = GethEvm_probe py bin tr blocktest_subcommand w"

definition GethStatetest_init ::
  "pylib \<Rightarrow> path \<Rightarrow> bool \<Rightarrow> world \<Rightarrow> (error + GethEvm) \<times> world" where
  "GethStatetest_init py bin tr w = GethEvm_probe py bin tr statetest_subcommand w"

text \<open>
  The command line each \<open>consume\<close> builds in its first statements. \<open>if fixture_name:\<close>
  is false for \<open>None\<close> and for the empty string.
\<close>

definition debug_flags :: "path option \<Rightarrow> string list" where
  "debug_flags debug_output_path =
     (if debug_output_path \<noteq> None then [''--debug'', ''--json'', ''--verbosity'', ''100'']
      else [])"

definition GethBlocktest_command ::
  "GethEvm \<Rightarrow> path \<Rightarrow> string option \<Rightarrow> path option \<Rightarrow> string list" where
  "GethBlocktest_command self fixture_path fixture_name debug_output_path =
     [binary self]
     @ debug_flags debug_output_path
     @ [blocktest_subcommand]
     @ (case fixture_name of
          None \<Rightarrow> []
        | Some n \<Rightarrow> if n \<noteq> [] then [''--run'', n] else [])
     @ [fixture_path]"

definition GethStatetest_command :: "GethEvm \<Rightarrow> path \<Rightarrow> path option \<Rightarrow> string list" where
  "GethStatetest_command self fixture_path debug_output_path =
     [binary self]
     @ debug_flags debug_output_path
     @ [statetest_subcommand, fixture_path]"

text \<open>The message both \<open>consume\<close> methods raise on a nonzero exit.\<close>

definition exit_code_message :: "string list \<Rightarrow> CompletedProcess \<Rightarrow> string" where
  "exit_code_message command result =
     ''Unexpected exit code:'' @ nl @ join_sp command @ nl @ nl @ '' Error:'' @ nl @ stderr result"

text \<open>The step both methods share: the dump, only when a debug directory is given.\<close>

definition debug_dump_if_requested ::
  "pylib \<Rightarrow> string list \<Rightarrow> CompletedProcess \<Rightarrow> path \<Rightarrow> path option \<Rightarrow> world
     \<Rightarrow> (error + unit) \<times> world" where
  "debug_dump_if_requested py command result fixture_path debug_output_path w =
     (case debug_output_path of
        None \<Rightarrow> (Inr (), w)
      | Some d \<Rightarrow> consume_debug_dump py command result fixture_path d w)"

definition GethBlocktest_consume ::
  "pylib \<Rightarrow> GethEvm \<Rightarrow> path \<Rightarrow> string option \<Rightarrow> path option \<Rightarrow> world
     \<Rightarrow> (error + json) \<times> world" where
  "GethBlocktest_consume py self fixture_path fixture_name debug_output_path w =
     (let command = GethBlocktest_command self fixture_path fixture_name debug_output_path in
      case run_command py command w of
        (Inl e, w1) \<Rightarrow> (Inl e, w1)
      | (Inr result, w1) \<Rightarrow>
          (case debug_dump_if_requested py command result fixture_path debug_output_path w1 of
             (Inl e, w2) \<Rightarrow> (Inl e, w2)
           | (Inr _, w2) \<Rightarrow>
               if returncode result \<noteq> 0
               then (Inl (Exception (exit_code_message command result)), w2)
               else (Inr (JList []), w2)))"

definition GethStatetest_consume ::
  "pylib \<Rightarrow> GethEvm \<Rightarrow> path \<Rightarrow> path option \<Rightarrow> world \<Rightarrow> (error + json) \<times> world" where
  "GethStatetest_consume py self fixture_path debug_output_path w =
     (let command = GethStatetest_command self fixture_path debug_output_path in
      case run_command py command w of
        (Inl e, w1) \<Rightarrow> (Inl e, w1)
      | (Inr result, w1) \<Rightarrow>
          (case debug_dump_if_requested py command result fixture_path debug_output_path w1 of
             (Inl e, w2) \<Rightarrow> (Inl e, w2)
           | (Inr _, w2) \<Rightarrow>
               if returncode result \<noteq> 0
               then (Inl (Exception (exit_code_message command result)), w2)
               else (case json_loads py (stdout result) of
                       Inl e \<Rightarrow> (Inl (JSONDecodeError e), w2)
                     | Inr result_json \<Rightarrow>
                         if \<not> is_list result_json
                         then (Inl (Exception (''Unexpected result from evm statetest: ''
                                                @ str_json py result_json)), w2)
                         else (Inr result_json, w2))))"

section \<open>\<open>GethFixtureConsumer\<close>\<close>

record GethFixtureConsumer = FixtureConsumer +
  statetest :: GethEvm
  blocktest :: GethEvm

text \<open>
  \<open>__init__(self, binary: Path, trace: bool)\<close>: the one binary fills the state-test and
  the chain-test role, the object-format role stays \<open>None\<close>; then the two wrappers are
  built, each probing its help text.
\<close>

definition GethFixtureConsumer_init ::
  "pylib \<Rightarrow> path \<Rightarrow> bool \<Rightarrow> world \<Rightarrow> (error + GethFixtureConsumer) \<times> world" where
  "GethFixtureConsumer_init py bin tr w =
     (let base = FixtureConsumer_init (Some bin) (Some bin) None in
      case GethStatetest_init py bin tr w of
        (Inl e, w1) \<Rightarrow> (Inl e, w1)
      | (Inr st, w1) \<Rightarrow>
          (case GethBlocktest_init py bin tr w1 of
             (Inl e, w2) \<Rightarrow> (Inl e, w2)
           | (Inr bt, w2) \<Rightarrow>
               (Inr \<lparr> statetest_binary = statetest_binary base,
                      blocktest_binary = blocktest_binary base,
                      eoftest_binary = eoftest_binary base,
                      statetest = st,
                      blocktest = bt \<rparr>, w2)))"

definition consume_fixture ::
  "pylib \<Rightarrow> GethFixtureConsumer \<Rightarrow> FixtureFormat \<Rightarrow> path \<Rightarrow> string option \<Rightarrow> path option
     \<Rightarrow> world \<Rightarrow> (error + json) \<times> world" where
  "consume_fixture py self fixture_format fixture_path fixture_name debug_output_path w =
     (if fixture_format = StateFixture
      then GethStatetest_consume py (statetest self) fixture_path debug_output_path w
      else if fixture_format = BlockchainFixture
      then GethBlocktest_consume py (blocktest self) fixture_path fixture_name
             debug_output_path w
      else (Inl (NotImplementedError
                   (''Geth can not verify fixture format of type `''
                    @ str_format py fixture_format @ ''`'')), w))"

text \<open>
  \<open>pytest_configure\<close> (\<open>pytest_plugins/consume/direct/conftest.py\<close>) sets
  \<open>config.run_single_test = "--run" in fixture_consumer.blocktest.help()\<close>.
\<close>

definition run_single_test :: "GethFixtureConsumer \<Rightarrow> bool" where
  "run_single_test fixture_consumer =
     sublist ''--run'' (help_string (blocktest fixture_consumer))"

section \<open>\<open>GethExceptionMapper\<close>\<close>

text \<open>
  The members of \<open>TransactionException\<close> and \<open>EOFException\<close> (package
  \<open>ethereum_test_exceptions\<close>, not among the sources) that the table of geth names.
\<close>

datatype TransactionException =
    TYPE_4_TX_CONTRACT_CREATION
  | INSUFFICIENT_ACCOUNT_FUNDS
  | TYPE_3_TX_MAX_BLOB_GAS_ALLOWANCE_EXCEEDED
  | INSUFFICIENT_MAX_FEE_PER_BLOB_GAS
  | INSUFFICIENT_MAX_FEE_PER_GAS
  | TYPE_3_TX_PRE_FORK
  | TYPE_3_TX_INVALID_BLOB_VERSIONED_HASH
  | TYPE_3_TX_BLOB_COUNT_EXCEEDED
  | TYPE_3_TX_ZERO_BLOBS
  | INTRINSIC_GAS_TOO_LOW
  | INITCODE_SIZE_EXCEEDED

datatype EOFException =
    MISSING_STOP_OPCODE
  | MISSING_CODE_HEADER
  | MISSING_TYPE_HEADER
  | MISSING_TERMINATOR
  | MISSING_HEADERS_TERMINATOR
  | INVALID_VERSION
  | INVALID_NON_RETURNING_FLAG
  | INVALID_MAGIC
  | INVALID_FIRST_SECTION_TYPE
  | INVALID_SECTION_BODIES_SIZE
  | INVALID_TYPE_SECTION_SIZE
  | INCOMPLETE_SECTION_SIZE
  | INCOMPLETE_SECTION_NUMBER
  | TOO_MANY_CODE_SECTIONS
  | ZERO_SECTION_SIZE
  | MISSING_DATA_SECTION
  | UNDEFINED_INSTRUCTION
  | INPUTS_OUTPUTS_NUM_ABOVE_LIMIT
  | UNREACHABLE_INSTRUCTIONS
  | INVALID_RJUMP_DESTINATION
  | UNREACHABLE_CODE_SECTIONS
  | STACK_UNDERFLOW
  | MAX_STACK_HEIGHT_ABOVE_LIMIT
  | STACK_HIGHER_THAN_OUTPUTS
  | JUMPF_DESTINATION_INCOMPATIBLE_OUTPUTS
  | INVALID_MAX_STACK_HEIGHT
  | INVALID_DATALOADN_INDEX
  | TRUNCATED_INSTRUCTION
  | TOPLEVEL_CONTAINER_TRUNCATED
  | ORPHAN_SUBCONTAINER
  | CONTAINER_SIZE_ABOVE_LIMIT
  | INVALID_CONTAINER_SECTION_INDEX
  | INCOMPATIBLE_CONTAINER_KIND
  | STACK_HEIGHT_MISMATCH
  | TOO_MANY_CONTAINERS
  | INVALID_CODE_SECTION_INDEX

datatype ExceptionBase =
    TransactionException TransactionException
  | EOFException EOFException

text \<open>\<open>ExceptionMessage(exception, message)\<close>\<close>

datatype ExceptionMessage =
  ExceptionMessage (exception: ExceptionBase) (message: string)

text \<open>\<open>GethExceptionMapper._mapping_data\<close>, entry by entry in the order of the source.\<close>

definition mapping_data :: "ExceptionMessage list" where
  "mapping_data =
    [ ExceptionMessage (TransactionException TYPE_4_TX_CONTRACT_CREATION)
       ''set code transaction must not be a create transaction'',
      ExceptionMessage (TransactionException INSUFFICIENT_ACCOUNT_FUNDS)
       ''insufficient funds for gas * price + value'',
      ExceptionMessage (TransactionException TYPE_3_TX_MAX_BLOB_GAS_ALLOWANCE_EXCEEDED)
       ''would exceed maximum allowance'',
      ExceptionMessage (TransactionException INSUFFICIENT_MAX_FEE_PER_BLOB_GAS)
       ''max fee per blob gas less than block blob gas fee'',
      ExceptionMessage (TransactionException INSUFFICIENT_MAX_FEE_PER_GAS)
       ''max fee per gas less than block base fee'',
      ExceptionMessage (TransactionException TYPE_3_TX_PRE_FORK)
       ''blob tx used but field env.ExcessBlobGas missing'',
      ExceptionMessage (TransactionException TYPE_3_TX_INVALID_BLOB_VERSIONED_HASH)
       ''has invalid hash version'',
      ExceptionMessage (TransactionException TYPE_3_TX_BLOB_COUNT_EXCEEDED)
       ''exceed maximum allowance'',
      ExceptionMessage (TransactionException TYPE_3_TX_ZERO_BLOBS)
       ''blob transaction missing blob hashes'',
      ExceptionMessage (TransactionException INTRINSIC_GAS_TOO_LOW)
       ''intrinsic gas too low'',
      ExceptionMessage (TransactionException INITCODE_SIZE_EXCEEDED)
       ''max initcode size exceeded'',
      ExceptionMessage (EOFException MISSING_STOP_OPCODE)
       ''err: no_terminating_instruction'',
      ExceptionMessage (EOFException MISSING_CODE_HEADER)
       ''err: code_section_missing'',
      ExceptionMessage (EOFException MISSING_TYPE_HEADER)
       ''err: type_section_missing'',
      ExceptionMessage (EOFException MISSING_TERMINATOR)
       ''err: header_terminator_missing'',
      ExceptionMessage (EOFException MISSING_HEADERS_TERMINATOR)
       ''err: section_headers_not_terminated'',
      ExceptionMessage (EOFException INVALID_VERSION)
       ''err: eof_version_unknown'',
      ExceptionMessage (EOFException INVALID_NON_RETURNING_FLAG)
       ''err: invalid_non_returning_flag'',
      ExceptionMessage (EOFException INVALID_MAGIC)
       ''err: invalid_prefix'',
      ExceptionMessage (EOFException INVALID_FIRST_SECTION_TYPE)
       ''err: invalid_first_section_type'',
      ExceptionMessage (EOFException INVALID_SECTION_BODIES_SIZE)
       ''err: invalid_section_bodies_size'',
      ExceptionMessage (EOFException INVALID_TYPE_SECTION_SIZE)
       ''err: invalid_type_section_size'',
      ExceptionMessage (EOFException INCOMPLETE_SECTION_SIZE)
       ''err: incomplete_section_size'',
      ExceptionMessage (EOFException INCOMPLETE_SECTION_NUMBER)
       ''err: incomplete_section_number'',
      ExceptionMessage (EOFException TOO_MANY_CODE_SECTIONS)
       ''err: too_many_code_sections'',
      ExceptionMessage (EOFException ZERO_SECTION_SIZE)
       ''err: zero_section_size'',
      ExceptionMessage (EOFException MISSING_DATA_SECTION)
       ''err: data_section_missing'',
      ExceptionMessage (EOFException UNDEFINED_INSTRUCTION)
       ''err: undefined_instruction'',
      ExceptionMessage (EOFException INPUTS_OUTPUTS_NUM_ABOVE_LIMIT)
       ''err: inputs_outputs_num_above_limit'',
      ExceptionMessage (EOFException UNREACHABLE_INSTRUCTIONS)
       ''err: unreachable_instructions'',
      ExceptionMessage (EOFException INVALID_RJUMP_DESTINATION)
       ''err: invalid_rjump_destination'',
      ExceptionMessage (EOFException UNREACHABLE_CODE_SECTIONS)
       ''err: unreachable_code_sections'',
      ExceptionMessage (EOFException STACK_UNDERFLOW)
       ''err: stack_underflow'',
      ExceptionMessage (EOFException MAX_STACK_HEIGHT_ABOVE_LIMIT)
       ''err: max_stack_height_above_limit'',
      ExceptionMessage (EOFException STACK_HIGHER_THAN_OUTPUTS)
       ''err: stack_higher_than_outputs_required'',
      ExceptionMessage (EOFException JUMPF_DESTINATION_INCOMPATIBLE_OUTPUTS)
       ''err: jumpf_destination_incompatible_outputs'',
      ExceptionMessage (EOFException INVALID_MAX_STACK_HEIGHT)
       ''err: invalid_max_stack_height'',
      ExceptionMessage (EOFException INVALID_DATALOADN_INDEX)
       ''err: invalid_dataloadn_index'',
      ExceptionMessage (EOFException TRUNCATED_INSTRUCTION)
       ''err: truncated_instruction'',
      ExceptionMessage (EOFException TOPLEVEL_CONTAINER_TRUNCATED)
       ''err: toplevel_container_truncated'',
      ExceptionMessage (EOFException ORPHAN_SUBCONTAINER)
       ''err: unreferenced_subcontainer'',
      ExceptionMessage (EOFException CONTAINER_SIZE_ABOVE_LIMIT)
       ''err: container_size_above_limit'',
      ExceptionMessage (EOFException INVALID_CONTAINER_SECTION_INDEX)
       ''err: invalid_container_section_index'',
      ExceptionMessage (EOFException INCOMPATIBLE_CONTAINER_KIND)
       ''err: incompatible_container_kind'',
      ExceptionMessage (EOFException STACK_HEIGHT_MISMATCH)
       ''err: stack_height_mismatch'',
      ExceptionMessage (EOFException TOO_MANY_CONTAINERS)
       ''err: too_many_container_sections'',
      ExceptionMessage (EOFException INVALID_CODE_SECTION_INDEX)
       ''err: invalid_code_section_index'' ]"

text \<open>
  Modelled from the spec: the lookup of \<open>ExceptionMapper\<close> (package
  \<open>ethereum_test_exceptions\<close>) is not among the sources. The spec: a linear scan of
  the ordered table returns the canonical kind of the first entry whose pattern is a
  substring of the raw text; if none matches, the result is "unmapped". Python's
  \<open>pattern in text\<close> on strings is \<^const>\<open>sublist\<close>.
\<close>

datatype classification = Mapped ExceptionBase | Unmapped

fun classify :: "ExceptionMessage list \<Rightarrow> string \<Rightarrow> classification" where
  "classify [] raw = Unmapped"
| "classify (entry # entries) raw =
     (if sublist (message entry) raw then Mapped (exception entry)
      else classify entries raw)"

section \<open>A concrete environment\<close>

text \<open>
  Binaries that answer every command line with the same exit status and output, or that
  reject the flag \<open>--run\<close>; a decoder that refuses the byte \<open>0xFF\<close>; a parser that knows
  three inputs; a \<open>dedent\<close> that leaves its text as it is; and stores in which every path
  string names a file of its own, or in which two strings name one file: the inputs on
  which the properties below are evaluated.
\<close>

definition fixed_process ::
  "int \<Rightarrow> bytes \<Rightarrow> bytes \<Rightarrow> string list \<Rightarrow> string + ChildProcess" where
  "fixed_process code out err command =
     Inr \<lparr> exit_status = code, stdout_bytes = out, stderr_bytes = err \<rparr>"

definition rejecting_process :: "string list \<Rightarrow> string + ChildProcess" where
  "rejecting_process command =
     (if ''--run'' \<in> set command
      then Inr \<lparr> exit_status = 1, stdout_bytes = [],
                 stderr_bytes = ''flag provided but not defined: -run'' \<rparr>
      else Inr \<lparr> exit_status = 0, stdout_bytes = [], stderr_bytes = [] \<rparr>)"

definition sample_decode :: "bytes \<Rightarrow> string + string" where
  "sample_decode bs = (if CHR 0xFF \<in> set bs then Inl ''invalid start byte'' else Inr bs)"

definition sample_loads :: "string \<Rightarrow> string + json" where
  "sample_loads s =
     (if s = ''[]'' then Inr (JList [])
      else if s = ''[1, 2]'' then Inr (JList [JInt 1, JInt 2])
      else if s = ''{}'' then Inr (JDict [])
      else Inl ''Expecting value'')"

fun sample_str :: "json \<Rightarrow> string" where
  "sample_str (JDict []) = ''{}''"
| "sample_str _ = ''...''"

definition sample_lib :: "int \<Rightarrow> bytes \<Rightarrow> bytes \<Rightarrow> pylib" where
  "sample_lib code out err =
     \<lparr> spawn = fixed_process code out err,
       decode = sample_decode,
       json_loads = sample_loads,
       str_json = sample_str,
       dedent = (\<lambda>s. s),
       str_format = (\<lambda>f. ''<class>'') \<rparr>"

definition rejecting_lib :: pylib where
  "rejecting_lib =
     \<lparr> spawn = rejecting_process,
       decode = sample_decode,
       json_loads = sample_loads,
       str_json = sample_str,
       dedent = (\<lambda>s. s),
       str_format = (\<lambda>f. ''<class>'') \<rparr>"

definition sample_evm :: GethEvm where
  "sample_evm = \<lparr> binary = ''evm'', trace = False, help_string = [] \<rparr>"

definition sample_consumer :: GethFixtureConsumer where
  "sample_consumer =
     \<lparr> statetest_binary = Some ''evm'', blocktest_binary = Some ''evm'', eoftest_binary = None,
       statetest = sample_evm, blocktest = sample_evm \<rparr>"

definition empty_world :: world where
  "empty_world = \<lparr> locate = (\<lambda>p. p), files = Map.empty, commands = [] \<rparr>"

definition fixture_world :: world where
  "fixture_world =
     \<lparr> locate = (\<lambda>p. p), files = [''f.json'' \<mapsto> Text ''{}''], commands = [] \<rparr>"

definition bundle_world :: world where
  "bundle_world =
     \<lparr> locate = (\<lambda>p. p), files = [''dbg/fixtures.json'' \<mapsto> Text ''{}''], commands = [] \<rparr>"

definition linked_world :: world where
  "linked_world =
     \<lparr> locate = (\<lambda>p. if p = ''dbg/../dbg/fixtures.json'' then ''dbg/fixtures.json'' else p),
       files = [''dbg/fixtures.json'' \<mapsto> Text ''{}''],
       commands = [] \<rparr>"

definition cwd_world :: world where
  "cwd_world =
     \<lparr> locate = (\<lambda>p. p), files = [''fixtures.json'' \<mapsto> Text ''{}''], commands = [] \<rparr>"

definition dumped_fixture_world :: world where
  "dumped_fixture_world =
     \<lparr> locate = (\<lambda>p. p),
       files = [''dbg/consume_direct_stdout.txt'' \<mapsto> Text ''{}''],
       commands = [] \<rparr>"

section \<open>Classification\<close>

lemma classify_first_match:
  "i < length tbl \<Longrightarrow> sublist (message (tbl ! i)) raw
   \<Longrightarrow> \<forall>j<i. \<not> sublist (message (tbl ! j)) raw
   \<Longrightarrow> classify tbl raw = Mapped (exception (tbl ! i))"
proof (induction tbl arbitrary: i)
  case Nil
  then show ?case by simp
next
  case (Cons entry entries)
  show ?case
  proof (cases i)
    case 0
    with Cons.prems show ?thesis by simp
  next
    case (Suc k)
    from Cons.prems Suc have first: "\<not> sublist (message entry) raw" by auto
    from Cons.prems Suc have "k < length entries" "sublist (message (entries ! k)) raw"
      by simp_all
    moreover from Cons.prems Suc have "\<forall>j<k. \<not> sublist (message (entries ! j)) raw"
      by (metis Suc_less_eq nth_Cons_Suc)
    ultimately have "classify entries raw = Mapped (exception (entries ! k))"
      by (rule Cons.IH)
    with first Suc show ?thesis by simp
  qed
qed

lemma classify_no_match:
  "\<forall>entry\<in>set tbl. \<not> sublist (message entry) raw \<Longrightarrow> classify tbl raw = Unmapped"
  by (induction tbl) simp_all

text \<open>
  C1. On the table of geth, classification is first match wins: a raw text that contains
  the pattern of the entry at position \<open>i\<close> and the pattern of no entry before it
  classifies to that entry's kind, and a text that contains no pattern of the table is
  unmapped.
\<close>

theorem geth_first_match_wins:
  "(\<forall>i<length mapping_data.
      sublist (message (mapping_data ! i)) raw
      \<and> (\<forall>j<i. \<not> sublist (message (mapping_data ! j)) raw)
      \<longrightarrow> classify mapping_data raw = Mapped (exception (mapping_data ! i)))
   \<and> ((\<forall>entry\<in>set mapping_data. \<not> sublist (message entry) raw)
      \<longrightarrow> classify mapping_data raw = Unmapped)"
  using classify_first_match [of _ mapping_data raw] classify_no_match [of mapping_data raw]
  by blast

theorem geth_first_match_wins_witness:
  "7 < length mapping_data
   \<and> sublist (message (mapping_data ! 7)) ''tx 3: exceed maximum allowance''
   \<and> list_all (\<lambda>entry. \<not> sublist (message entry) ''tx 3: exceed maximum allowance'')
        (take 7 mapping_data)
   \<and> classify mapping_data ''tx 3: exceed maximum allowance''
       = Mapped (TransactionException TYPE_3_TX_BLOB_COUNT_EXCEEDED)
   \<and> list_all (\<lambda>entry. \<not> sublist (message entry) ''unexpected state root'') mapping_data
   \<and> classify mapping_data ''unexpected state root'' = Unmapped"
proof -
  let ?raw = "''tx 3: exceed maximum allowance''"
  let ?other = "''unexpected state root''"
  have len: "7 < length mapping_data" by code_simp
  have here: "sublist (message (mapping_data ! 7)) ?raw" by code_simp
  have before: "\<forall>j<7. \<not> sublist (message (mapping_data ! j)) ?raw" by code_simp
  have before': "list_all (\<lambda>entry. \<not> sublist (message entry) ?raw) (take 7 mapping_data)"
    by code_simp
  have kind: "exception (mapping_data ! 7) = TransactionException TYPE_3_TX_BLOB_COUNT_EXCEEDED"
    by code_simp
  have none: "\<forall>entry\<in>set mapping_data. \<not> sublist (message entry) ?other" by code_simp
  have none': "list_all (\<lambda>entry. \<not> sublist (message entry) ?other) mapping_data"
    by code_simp
  from geth_first_match_wins [of ?raw] len here before kind
  have "classify mapping_data ?raw = Mapped (TransactionException TYPE_3_TX_BLOB_COUNT_EXCEEDED)"
    by metis
  moreover from geth_first_match_wins [of ?other] none
  have "classify mapping_data ?other = Unmapped" by blast
  ultimately show ?thesis using len here before' none' by blast
qed

section \<open>The dispatcher\<close>

text \<open>
  C7. \<open>is_consumable\<close> is true exactly when the binary role of the format was given at
  construction, for the state-test, chain-test and object-format-test formats, and false
  for a format outside these three; on any instance it reads the three role fields.
\<close>

theorem is_consumable_iff_configured:
  "is_consumable (FixtureConsumer_init s b e) StateFixture = (s \<noteq> None)
   \<and> is_consumable (FixtureConsumer_init s b e) BlockchainFixture = (b \<noteq> None)
   \<and> is_consumable (FixtureConsumer_init s b e) EOFFixture = (e \<noteq> None)
   \<and> is_consumable (FixtureConsumer_init s b e) BlockchainEngineFixture = False
   \<and> is_consumable self StateFixture = (statetest_binary self \<noteq> None)
   \<and> is_consumable self BlockchainFixture = (blocktest_binary self \<noteq> None)
   \<and> is_consumable self EOFFixture = (eoftest_binary self \<noteq> None)
   \<and> is_consumable self BlockchainEngineFixture = False"
  by (simp add: is_consumable_def FixtureConsumer_init_def)

text \<open>
  C10. For the state-test format the fixture name has no effect: whatever two names are
  given (or none), \<open>consume_fixture\<close> gives the same outcome and leaves the same world,
  the same command line logged in it.
\<close>

theorem statetest_name_discarded:
  "consume_fixture py self StateFixture fixture_path name1 debug_output_path w
   = consume_fixture py self StateFixture fixture_path name2 debug_output_path w"
  by (simp add: consume_fixture_def)

lemma commands_dump_files [simp]:
  "commands (dump_files_to_directory d entries w) = commands w"
  by (induction d entries w rule: dump_files_to_directory.induct) simp_all

lemma commands_copyfile [simp]: "commands (snd (copyfile src dst w)) = commands w"
  by (simp add: copyfile_def split: option.splits)

lemma commands_debug_dump [simp]:
  "commands (snd (debug_dump_if_requested py command result p dbg w)) = commands w"
  by (simp add: debug_dump_if_requested_def consume_debug_dump_def Let_def split: option.splits)

lemma commands_GethStatetest_consume:
  "commands (snd (GethStatetest_consume py self p dbg w))
   = commands w @ [GethStatetest_command self p dbg]"
proof (cases "subprocess_run py (GethStatetest_command self p dbg)")
  case (Inl e)
  then show ?thesis by (simp add: GethStatetest_consume_def run_command_def Let_def)
next
  case (Inr result)
  let ?w1 = "w\<lparr>commands := commands w @ [GethStatetest_command self p dbg]\<rparr>"
  obtain r w2 where d: "debug_dump_if_requested py (GethStatetest_command self p dbg) result p dbg ?w1 = (r, w2)"
    by (cases "debug_dump_if_requested py (GethStatetest_command self p dbg) result p dbg ?w1")
  from commands_debug_dump [of py "GethStatetest_command self p dbg" result p dbg ?w1] d
  have "commands w2 = commands w @ [GethStatetest_command self p dbg]" by simp
  with Inr d show ?thesis
    by (simp add: GethStatetest_consume_def run_command_def Let_def split: sum.splits)
qed

lemma commands_GethBlocktest_consume:
  "commands (snd (GethBlocktest_consume py self p name dbg w))
   = commands w @ [GethBlocktest_command self p name dbg]"
proof (cases "subprocess_run py (GethBlocktest_command self p name dbg)")
  case (Inl e)
  then show ?thesis by (simp add: GethBlocktest_consume_def run_command_def Let_def)
next
  case (Inr result)
  let ?c = "GethBlocktest_command self p name dbg"
  let ?w1 = "w\<lparr>commands := commands w @ [?c]\<rparr>"
  obtain r w2 where d: "debug_dump_if_requested py ?c result p dbg ?w1 = (r, w2)"
    by (cases "debug_dump_if_requested py ?c result p dbg ?w1")
  from commands_debug_dump [of py ?c result p dbg ?w1] d
  have "commands w2 = commands w @ [?c]" by simp
  with Inr d show ?thesis
    by (simp add: GethBlocktest_consume_def run_command_def Let_def split: sum.splits)
qed

text \<open>
  C8. The command line each \<open>consume\<close> hands to the child process is, in order: the
  binary; the flags \<open>--debug --json --verbosity 100\<close> exactly when a debug directory is
  given; the subcommand; for the chain test the filter \<open>--run name\<close> when a non-empty name
  is given; the fixture path last.
\<close>

theorem command_line_order:
  "commands (snd (GethStatetest_consume py self p dbg w))
     = commands w @ [GethStatetest_command self p dbg]
   \<and> commands (snd (GethBlocktest_consume py self p name dbg w))
     = commands w @ [GethBlocktest_command self p name dbg]
   \<and> GethStatetest_command self p None = [binary self, ''statetest'', p]
   \<and> GethStatetest_command self p (Some d)
     = [binary self, ''--debug'', ''--json'', ''--verbosity'', ''100'', ''statetest'', p]
   \<and> GethBlocktest_command self p None None = [binary self, ''blocktest'', p]
   \<and> GethBlocktest_command self p (Some []) None = [binary self, ''blocktest'', p]
   \<and> GethBlocktest_command self p (Some (c # cs)) None
     = [binary self, ''blocktest'', ''--run'', c # cs, p]
   \<and> GethBlocktest_command self p None (Some d)
     = [binary self, ''--debug'', ''--json'', ''--verbosity'', ''100'', ''blocktest'', p]
   \<and> GethBlocktest_command self p (Some []) (Some d)
     = [binary self, ''--debug'', ''--json'', ''--verbosity'', ''100'', ''blocktest'', p]
   \<and> GethBlocktest_command self p (Some (c # cs)) (Some d)
     = [binary self, ''--debug'', ''--json'', ''--verbosity'', ''100'', ''blocktest'',
        ''--run'', c # cs, p]"
  by (simp add: commands_GethStatetest_consume commands_GethBlocktest_consume
      GethStatetest_command_def GethBlocktest_command_def debug_flags_def
      statetest_subcommand_def blocktest_subcommand_def)

section \<open>Outcomes of \<open>consume\<close>\<close>


lemma locate_dump_files [simp]:
  "locate (dump_files_to_directory d entries w) = locate w"
  by (induction d entries w rule: dump_files_to_directory.induct) simp_all





lemmas sample_defs =
  sample_lib_def rejecting_lib_def fixed_process_def rejecting_process_def sample_decode_def
  sample_loads_def sample_evm_def empty_world_def fixture_world_def bundle_world_def
  linked_world_def cwd_world_def dumped_fixture_world_def

lemmas consume_defs =
  GethStatetest_consume_def GethBlocktest_consume_def GethStatetest_command_def
  GethBlocktest_command_def debug_flags_def statetest_subcommand_def blocktest_subcommand_def
  run_command_def subprocess_run_def debug_dump_if_requested_def consume_debug_dump_def
  copyfile_def truediv_def os_path_join_def dump_file_name_def exit_code_message_def nl_def
  Let_def












section \<open>The name filter and the formats without a runner\<close>

lemma GethBlocktest_consume_ignores_help:
  "GethBlocktest_consume py (self\<lparr>help_string := h\<rparr>) p name dbg w
   = GethBlocktest_consume py self p name dbg w"
  by (simp add: GethBlocktest_consume_def GethBlocktest_command_def)

lemma GethBlocktest_consume_empty_name:
  "GethBlocktest_consume py self p (Some []) dbg w = GethBlocktest_consume py self p None dbg w"
  by (simp add: GethBlocktest_consume_def GethBlocktest_command_def)

text \<open>
  C5, as the code has it. The chain-test \<open>consume\<close> adds the filter \<open>--run name\<close> exactly
  when the caller gives a non-empty name, whatever the probed help text says: neither
  the command line nor the outcome of \<open>consume\<close> depends on the help text
  (\<open>pytest_configure\<close> only records, as \<open>run_single_test\<close>, whether the help text holds
  \<open>--run\<close>). With no name or an empty name no filter is added, and the call with an empty
  name is the call with no name. In every case the command line so built is the one
  handed to the child process.
\<close>

theorem run_filter_follows_name_only:
  "GethBlocktest_command self p None dbg
     = [binary self] @ debug_flags dbg @ [''blocktest'', p]
   \<and> GethBlocktest_command self p (Some []) dbg
     = [binary self] @ debug_flags dbg @ [''blocktest'', p]
   \<and> GethBlocktest_command self p (Some (c # cs)) dbg
     = [binary self] @ debug_flags dbg @ [''blocktest'', ''--run'', c # cs, p]
   \<and> GethBlocktest_command (self\<lparr>help_string := h\<rparr>) p name dbg
     = GethBlocktest_command self p name dbg
   \<and> GethBlocktest_consume py (self\<lparr>help_string := h\<rparr>) p name dbg w
     = GethBlocktest_consume py self p name dbg w
   \<and> GethBlocktest_consume py self p (Some []) dbg w
     = GethBlocktest_consume py self p None dbg w
   \<and> commands (snd (GethBlocktest_consume py self p name dbg w))
     = commands w @ [GethBlocktest_command self p name dbg]"
  by (simp add: GethBlocktest_consume_ignores_help GethBlocktest_consume_empty_name
      commands_GethBlocktest_consume GethBlocktest_command_def blocktest_subcommand_def)

theorem run_filter_follows_name_only_counterexample:
  "fst (GethFixtureConsumer_init rejecting_lib ''evm'' False empty_world)
     = Inr sample_consumer
   \<and> \<not> run_single_test sample_consumer
   \<and> commands (snd (consume_fixture rejecting_lib sample_consumer BlockchainFixture
        ''f.json'' (Some ''t1'') None empty_world))
     = [[''evm'', ''blocktest'', ''--run'', ''t1'', ''f.json'']]
   \<and> fst (consume_fixture rejecting_lib sample_consumer BlockchainFixture
        ''f.json'' (Some ''t1'') None empty_world)
     = Inl (Exception (''Unexpected exit code:'' @ nl
              @ ''evm blocktest --run t1 f.json'' @ nl @ nl
              @ '' Error:'' @ nl @ ''flag provided but not defined: -run''))
   \<and> commands (snd (consume_fixture rejecting_lib sample_consumer BlockchainFixture
        ''f.json'' None None empty_world))
     = [[''evm'', ''blocktest'', ''f.json'']]
   \<and> fst (consume_fixture rejecting_lib sample_consumer BlockchainFixture
        ''f.json'' None None empty_world)
     = Inr (JList [])"
  by (simp add: sample_defs sample_consumer_def consume_defs consume_fixture_def
      run_single_test_def GethFixtureConsumer_init_def GethStatetest_init_def
      GethBlocktest_init_def GethEvm_probe_def FixtureConsumer_init_def)

lemma GethFixtureConsumer_init_roles:
  assumes "GethFixtureConsumer_init py bin tr w0 = (Inr self, w1)"
  shows "statetest_binary self = Some bin \<and> blocktest_binary self = Some bin
         \<and> eoftest_binary self = None"
  using assms
  by (auto simp add: GethFixtureConsumer_init_def FixtureConsumer_init_def Let_def
      split: prod.splits sum.splits)

text \<open>
  C6. On a dispatcher built by its constructor, \<open>consume_fixture\<close> for a format whose
  binary role is not configured, or that has no runner, raises \<open>NotImplementedError\<close> and
  leaves the world as it was: no command is run and no file written. The object-format
  test format always ends this way.
\<close>

theorem unsupported_format_not_implemented:
  assumes "GethFixtureConsumer_init py bin tr w0 = (Inr self, w1)"
    and "\<not> is_consumable self fmt \<or> (fmt \<noteq> StateFixture \<and> fmt \<noteq> BlockchainFixture)"
  shows "consume_fixture py self fmt p name dbg w
           = (Inl (NotImplementedError (''Geth can not verify fixture format of type `''
                     @ str_format py fmt @ ''`'')), w)
       \<and> consume_fixture py self EOFFixture p name dbg w
           = (Inl (NotImplementedError (''Geth can not verify fixture format of type `''
                     @ str_format py EOFFixture @ ''`'')), w)"
proof -
  from assms(1) have "is_consumable self StateFixture" "is_consumable self BlockchainFixture"
    using GethFixtureConsumer_init_roles [OF assms(1)] by (simp_all add: is_consumable_def)
  with assms(2) have "fmt \<noteq> StateFixture" "fmt \<noteq> BlockchainFixture" by auto
  then show ?thesis by (simp add: consume_fixture_def)
qed

theorem unsupported_format_not_implemented_witness:
  "GethFixtureConsumer_init (sample_lib 0 [] []) ''evm'' False empty_world
     = (Inr sample_consumer,
        empty_world\<lparr>commands :=
          [[''evm'', ''statetest'', ''--help''], [''evm'', ''blocktest'', ''--help'']]\<rparr>)
   \<and> \<not> is_consumable sample_consumer BlockchainEngineFixture
   \<and> consume_fixture (sample_lib 0 [] []) sample_consumer BlockchainEngineFixture ''f.json''
        (Some ''t1'') (Some ''dbg'') fixture_world
     = (Inl (NotImplementedError ''Geth can not verify fixture format of type `<class>`''),
        fixture_world)
   \<and> consume_fixture (sample_lib 0 [] []) sample_consumer EOFFixture ''f.json''
        (Some ''t1'') (Some ''dbg'') fixture_world
     = (Inl (NotImplementedError ''Geth can not verify fixture format of type `<class>`''),
        fixture_world)"
proof -
  have built: "GethFixtureConsumer_init (sample_lib 0 [] []) ''evm'' False empty_world
     = (Inr sample_consumer,
        empty_world\<lparr>commands :=
          [[''evm'', ''statetest'', ''--help''], [''evm'', ''blocktest'', ''--help'']]\<rparr>)"
    by (simp add: sample_defs sample_consumer_def run_command_def subprocess_run_def
        GethFixtureConsumer_init_def GethStatetest_init_def GethBlocktest_init_def
        GethEvm_probe_def FixtureConsumer_init_def statetest_subcommand_def
        blocktest_subcommand_def)
  have role: "\<not> is_consumable sample_consumer BlockchainEngineFixture"
    by (simp add: is_consumable_def)
  from unsupported_format_not_implemented [OF built, of BlockchainEngineFixture] role built
  show ?thesis by (simp add: sample_lib_def)
qed

section \<open>The debug bundle\<close>


lemma locate_copyfile [simp]: "locate (snd (copyfile src dst w)) = locate w"
  by (simp add: copyfile_def split: option.splits)












end
